theory Spec2Isabelle
  imports Complex_Main
begin

section \<open>JavaScript values\<close>

text \<open>
  A JavaScript number is an IEEE 754 double. The finite ones are idealised as exact
  rationals (binary rounding error is not modelled); the three special values that
  division can produce are kept apart, since \<open>0 / 0\<close> is \<open>NaN\<close> and not an exception.
\<close>

datatype jsnum = Num rat | NaN | PosInf | NegInf

fun js_add :: "jsnum \<Rightarrow> jsnum \<Rightarrow> jsnum" where
  "js_add (Num a) (Num b) = Num (a + b)"
| "js_add NaN _ = NaN"
| "js_add _ NaN = NaN"
| "js_add PosInf NegInf = NaN"
| "js_add NegInf PosInf = NaN"
| "js_add PosInf _ = PosInf"
| "js_add NegInf _ = NegInf"
| "js_add (Num a) b = b"

fun js_mul :: "jsnum \<Rightarrow> jsnum \<Rightarrow> jsnum" where
  "js_mul (Num a) (Num b) = Num (a * b)"
| "js_mul NaN _ = NaN"
| "js_mul _ NaN = NaN"
| "js_mul PosInf (Num b) = (if b = 0 then NaN else if 0 < b then PosInf else NegInf)"
| "js_mul NegInf (Num b) = (if b = 0 then NaN else if 0 < b then NegInf else PosInf)"
| "js_mul (Num a) PosInf = (if a = 0 then NaN else if 0 < a then PosInf else NegInf)"
| "js_mul (Num a) NegInf = (if a = 0 then NaN else if 0 < a then NegInf else PosInf)"
| "js_mul PosInf PosInf = PosInf"
| "js_mul NegInf NegInf = PosInf"
| "js_mul PosInf NegInf = NegInf"
| "js_mul NegInf PosInf = NegInf"

fun js_div :: "jsnum \<Rightarrow> jsnum \<Rightarrow> jsnum" where
  "js_div (Num a) (Num b) =
     (if b = 0 then (if a = 0 then NaN else if 0 < a then PosInf else NegInf)
      else Num (a / b))"
| "js_div NaN _ = NaN"
| "js_div _ NaN = NaN"
| "js_div (Num a) PosInf = Num 0"
| "js_div (Num a) NegInf = Num 0"
| "js_div PosInf (Num b) = (if 0 \<le> b then PosInf else NegInf)"
| "js_div NegInf (Num b) = (if 0 \<le> b then NegInf else PosInf)"
| "js_div PosInf _ = NaN"
| "js_div NegInf _ = NaN"

text \<open>\<open>Math.round\<close>: the nearest integer, a tie going up.\<close>

fun math_round :: "jsnum \<Rightarrow> jsnum" where
  "math_round (Num a) = Num (of_int \<lfloor>a + 1 / 2\<rfloor>)"
| "math_round x = x"

text \<open>
  The values handed to \<open>res.json\<close>. \<open>JUndefined\<close> is a property whose value is
  \<open>undefined\<close>: the key is there in the object and left out of the serialised text.
  An object is its list of own properties in insertion order.
\<close>

datatype json =
    JUndefined
  | JNull
  | JBool bool
  | JNum jsnum
  | JStr string
  | JArr "json list"
  | JObj "(string \<times> json) list"

fun truthy :: "json \<Rightarrow> bool" where
  "truthy JUndefined = False"
| "truthy JNull = False"
| "truthy (JBool b) = b"
| "truthy (JNum (Num a)) = (a \<noteq> 0)"
| "truthy (JNum NaN) = False"
| "truthy (JNum _) = True"
| "truthy (JStr s) = (s \<noteq> [])"
| "truthy (JArr _) = True"
| "truthy (JObj _) = True"

text \<open>\<open>a || b\<close> on values.\<close>

definition js_or :: "json \<Rightarrow> json \<Rightarrow> json" where
  "js_or a b = (if truthy a then a else b)"

text \<open>
  A query parameter or environment variable is a string or absent; \<open>x || d\<close> takes
  the default for an absent and for an empty string, and \<open>!x\<close> holds for both. (A
  parameter given several times arrives as an array, which every lookup and template
  reads as its elements joined by commas; it is taken as that string.)
\<close>

definition falsy_str :: "string option \<Rightarrow> bool" where
  "falsy_str x = (case x of None \<Rightarrow> True | Some s \<Rightarrow> s = [])"

definition str_or :: "string option \<Rightarrow> string \<Rightarrow> string" where
  "str_or x d = (case x of None \<Rightarrow> d | Some s \<Rightarrow> if s = [] then d else s)"

text \<open>A string-typed field that may be missing, as a value and inside a template literal.\<close>

definition opt_str :: "string option \<Rightarrow> json" where
  "opt_str x = (case x of None \<Rightarrow> JUndefined | Some s \<Rightarrow> JStr s)"

definition template_str :: "string option \<Rightarrow> string" where
  "template_str x = (case x of None \<Rightarrow> ''undefined'' | Some s \<Rightarrow> s)"

text \<open>Reading a property of a response body, for stating what a response holds.\<close>

fun field :: "string \<Rightarrow> json \<Rightarrow> json" where
  "field k (JObj kvs) = (case map_of kvs k of Some v \<Rightarrow> v | None \<Rightarrow> JUndefined)"
| "field k _ = JUndefined"

subsection \<open>Object literals as lookup tables\<close>

text \<open>
  \<open>table[key]\<close> on an object literal finds the literal's own properties and, failing
  that, the properties every object inherits from \<open>Object.prototype\<close>. The inherited
  ones are functions (for \<open>__proto__\<close> the prototype object itself), all of them truthy.
\<close>

definition object_prototype_keys :: "string list" where
  "object_prototype_keys =
     [''constructor'', ''__defineGetter__'', ''__defineSetter__'', ''hasOwnProperty'',
      ''__lookupGetter__'', ''__lookupSetter__'', ''isPrototypeOf'',
      ''propertyIsEnumerable'', ''toString'', ''valueOf'', ''__proto__'',
      ''toLocaleString'']"

datatype 'v lookup = Own 'v | Inherited string | Missing

definition js_lookup :: "(string \<times> 'v) list \<Rightarrow> string \<Rightarrow> 'v lookup" where
  "js_lookup table k =
     (case map_of table k of
        Some v \<Rightarrow> Own v
      | None \<Rightarrow> if k \<in> set object_prototype_keys then Inherited k else Missing)"

text \<open>
  The string an inherited member turns into inside a template literal or a comparison.
\<close>

definition render_inherited :: "string \<Rightarrow> string" where
  "render_inherited k =
     (if k = ''__proto__'' then ''[object Object]''
      else ''function '' @ (if k = ''constructor'' then ''Object'' else k)
             @ ''() { [native code] }'')"

text \<open>Strings compare by code units, left to right.\<close>

fun str_less :: "string \<Rightarrow> string \<Rightarrow> bool" where
  "str_less [] [] = False"
| "str_less [] (y # ys) = True"
| "str_less (x # xs) [] = False"
| "str_less (x # xs) (y # ys) =
     ((of_char x :: nat) < of_char y \<or> (x = y \<and> str_less xs ys))"

section \<open>Percent-encoding\<close>

definition hex_val :: "char \<Rightarrow> nat option" where
  "hex_val c =
     (let n = (of_char c :: nat) in
      if 48 \<le> n \<and> n \<le> 57 then Some (n - 48)
      else if 65 \<le> n \<and> n \<le> 70 then Some (n - 55)
      else if 97 \<le> n \<and> n \<le> 102 then Some (n - 87)
      else None)"

text \<open>The two hexadecimal digits after a percent sign, and what follows them.\<close>

fun parse_hex_octet :: "string \<Rightarrow> (nat \<times> string) option" where
  "parse_hex_octet (a # b # rest) =
     (case hex_val a of
        None \<Rightarrow> None
      | Some h \<Rightarrow> (case hex_val b of None \<Rightarrow> None | Some l \<Rightarrow> Some (16 * h + l, rest)))"
| "parse_hex_octet _ = None"

definition leading_ones :: "nat \<Rightarrow> nat" where
  "leading_ones b =
     (if b < 128 then 0 else if b < 192 then 1 else if b < 224 then 2
      else if b < 240 then 3 else if b < 248 then 4 else 5)"

text \<open>The \<open>n\<close> escapes that continue a multi-byte character.\<close>

fun continuation :: "nat \<Rightarrow> string \<Rightarrow> (nat list \<times> string) option" where
  "continuation 0 s = Some ([], s)"
| "continuation (Suc n) [] = None"
| "continuation (Suc n) (c # s) =
     (if c \<noteq> CHR ''%'' then None
      else case parse_hex_octet s of
             None \<Rightarrow> None
           | Some (b, rest) \<Rightarrow>
               (case continuation n rest of
                  None \<Rightarrow> None
                | Some (bs, rest') \<Rightarrow> Some (b # bs, rest')))"

definition cont_byte :: "nat \<Rightarrow> bool" where
  "cont_byte b = (128 \<le> b \<and> b \<le> 191)"

text \<open>One code point in well-formed UTF-8: no overlong form, no surrogate, at most U+10FFFF.\<close>

fun valid_utf8 :: "nat list \<Rightarrow> bool" where
  "valid_utf8 [a, b] = (194 \<le> a \<and> a \<le> 223 \<and> cont_byte b)"
| "valid_utf8 [a, b, c] =
     (cont_byte c \<and>
      (if a = 224 then 160 \<le> b \<and> b \<le> 191
       else if a = 237 then 128 \<le> b \<and> b \<le> 159
       else 225 \<le> a \<and> a \<le> 239 \<and> cont_byte b))"
| "valid_utf8 [a, b, c, d] =
     (cont_byte c \<and> cont_byte d \<and>
      (if a = 240 then 144 \<le> b \<and> b \<le> 191
       else if a = 244 then 128 \<le> b \<and> b \<le> 143
       else 241 \<le> a \<and> a \<le> 243 \<and> cont_byte b))"
| "valid_utf8 _ = False"

lemma parse_hex_octet_length:
  "parse_hex_octet s = Some (b, rest) \<Longrightarrow> length rest < length s"
  by (cases s rule: parse_hex_octet.cases) (auto split: option.splits)

lemma continuation_length:
  "continuation n s = Some (bs, rest) \<Longrightarrow> length rest \<le> length s"
proof (induction n s arbitrary: bs rest rule: continuation.induct)
  case (1 s)
  then show ?case by simp
next
  case (2 n)
  then show ?case by simp
next
  case (3 n c s)
  from "3.prems" obtain b r bs' where c: "c = CHR ''%''"
    and p: "parse_hex_octet s = Some (b, r)"
    and k: "continuation n r = Some (bs', rest)"
    by (auto split: if_splits option.splits)
  from c p k "3.IH" have "length rest \<le> length r" by auto
  with parse_hex_octet_length [OF p] show ?case by simp
qed

text \<open>
  \<open>decodeURIComponent\<close>, on strings read as their UTF-8 bytes. \<open>None\<close> is the
  \<open>URIError\<close> it throws: a percent sign without two hexadecimal digits after it, or
  escapes that are not the UTF-8 form of one character.
\<close>

function decodeURIComponent :: "string \<Rightarrow> string option" where
  "decodeURIComponent [] = Some []"
| "decodeURIComponent (c # s) =
     (if c \<noteq> CHR ''%'' then map_option ((#) c) (decodeURIComponent s)
      else case parse_hex_octet s of
             None \<Rightarrow> None
           | Some (b, rest) \<Rightarrow>
               if leading_ones b = 0
               then map_option ((#) (char_of b)) (decodeURIComponent rest)
               else if leading_ones b = 1 \<or> 4 < leading_ones b then None
               else (case continuation (leading_ones b - 1) rest of
                       None \<Rightarrow> None
                     | Some (bs, rest') \<Rightarrow>
                         if valid_utf8 (b # bs)
                         then map_option ((@) (map char_of (b # bs))) (decodeURIComponent rest')
                         else None))"
  by pat_completeness auto
termination
proof (relation "measure length")
  show "wf (measure length)" by simp
next
  fix c :: char and s :: string
  show "(s, c # s) \<in> measure length" by simp
next
  fix c :: char and s :: string and x2 :: "nat \<times> string" and b rest
  assume "parse_hex_octet s = Some x2" and "(b, rest) = x2"
  then have "parse_hex_octet s = Some (b, rest)" by simp
  from parse_hex_octet_length [OF this] show "(rest, c # s) \<in> measure length" by simp
next
  fix c :: char and s :: string and x2 :: "nat \<times> string" and b rest
    and x2a :: "nat list \<times> string" and bs rest'
  assume "parse_hex_octet s = Some x2" and "(b, rest) = x2"
    and "continuation (leading_ones b - 1) rest = Some x2a" and "(bs, rest') = x2a"
  then have p: "parse_hex_octet s = Some (b, rest)"
    and k: "continuation (leading_ones b - 1) rest = Some (bs, rest')" by simp_all
  from parse_hex_octet_length [OF p] continuation_length [OF k]
  show "(rest', c # s) \<in> measure length" by simp
qed

declare decodeURIComponent.simps [simp del]

text \<open>\<open>encodeURIComponent\<close>: every byte but the unreserved characters is escaped.\<close>

definition uri_unreserved :: "char \<Rightarrow> bool" where
  "uri_unreserved c =
     (let n = (of_char c :: nat) in
      (65 \<le> n \<and> n \<le> 90) \<or> (97 \<le> n \<and> n \<le> 122) \<or> (48 \<le> n \<and> n \<le> 57)
      \<or> c \<in> set ''-_.!~*'()'')"

definition hex_digit :: "nat \<Rightarrow> char" where
  "hex_digit n = (if n < 10 then char_of (48 + n) else char_of (55 + n))"

definition encodeURIComponent :: "string \<Rightarrow> string" where
  "encodeURIComponent s =
     concat (map (\<lambda>c. if uri_unreserved c then [c]
                       else [CHR ''%'', hex_digit (of_char c div 16), hex_digit (of_char c mod 16)]) s)"

section \<open>The handler's surroundings\<close>

text \<open>
  An upstream call is \<open>fetch(url, {headers})\<close> with the two fixed headers. It either
  rejects (a network fault; the string is the error's message) or resolves to a response
  with a status, the body as text, and the body as \<open>json()\<close> gives it: \<open>Inl\<close> with the
  message when parsing throws. A body that parses is taken to follow the vendor's
  schema for its endpoint, with any field possibly missing, so each endpoint is typed
  by its record.
\<close>

record request =
  url :: string
  riot_token :: string
  user_agent :: string

definition riot_request :: "string \<Rightarrow> string \<Rightarrow> request" where
  "riot_request u key = \<lparr>url = u, riot_token = key, user_agent = ''lol-api-proxy/1.0''\<rparr>"

record 'b response =
  status :: nat
  body_text :: string
  body_json :: "string + 'b"

datatype 'b fetch_result = Rejected string | Resolved "'b response"

text \<open>\<open>response.ok\<close>: a status from 200 to 299.\<close>

definition ok :: "'b response \<Rightarrow> bool" where
  "ok r = (200 \<le> status r \<and> status r \<le> 299)"

record account_dto =
  a_puuid :: "string option"
  a_gameName :: json
  a_tagLine :: json

record summoner_dto =
  s_id :: "string option"
  s_accountId :: json
  s_summonerLevel :: json
  s_profileIconId :: json
  s_revisionDate :: json

text \<open>A rank entry as the vendor sends it; \<open>wins\<close> and \<open>losses\<close> are integers.\<close>

record league_entry =
  e_queueType :: json
  e_tier :: "string option"
  e_rank :: json
  e_leaguePoints :: json
  e_wins :: int
  e_losses :: int
  e_veteran :: json
  e_inactive :: json
  e_freshBlood :: json
  e_hotStreak :: json
  e_leagueName :: json
  e_miniSeries :: json

record upstream =
  fetch_account :: "request \<Rightarrow> account_dto fetch_result"
  fetch_summoner :: "request \<Rightarrow> summoner_dto fetch_result"
  fetch_entries :: "request \<Rightarrow> league_entry list fetch_result"

text \<open>What a handler sends: \<open>res.status(n).json(body)\<close> or \<open>res.status(n).end()\<close>.\<close>

record http_out =
  out_status :: nat
  out_body :: "json option"

definition send_json :: "nat \<Rightarrow> json \<Rightarrow> http_out" where
  "send_json n b = \<lparr>out_status = n, out_body = Some b\<rparr>"

definition send_end :: "nat \<Rightarrow> http_out" where
  "send_end n = \<lparr>out_status = n, out_body = None\<rparr>"

text \<open>
  What the \<open>try\<close> block can throw, each with its message (the texts are the runtime's).
\<close>

datatype exn = URIError string | TypeError string | SyntaxError string

fun exn_message :: "exn \<Rightarrow> string" where
  "exn_message (URIError m) = m"
| "exn_message (TypeError m) = m"
| "exn_message (SyntaxError m) = m"

definition uri_malformed :: exn where
  "uri_malformed = URIError ''URI malformed''"

text \<open>
  A host that is an inherited member renders with spaces or brackets in it; \<open>fetch\<close>
  rejects such a URL while parsing it, before any request leaves.
\<close>

definition invalid_url :: "string \<Rightarrow> exn" where
  "invalid_url u = TypeError (''Failed to parse URL from '' @ u)"

text \<open>The \<open>catch\<close> block of both handlers.\<close>

definition internal_error :: "exn \<Rightarrow> http_out" where
  "internal_error e =
     send_json 500 (JObj [(''success'', JBool False),
                          (''error'', JStr ''Internal server error''),
                          (''message'', JStr (exn_message e))])"

definition method_not_allowed :: http_out where
  "method_not_allowed =
     send_json 405 (JObj [(''success'', JBool False), (''error'', JStr ''Method not allowed'')])"

definition nat_num :: "nat \<Rightarrow> json" where
  "nat_num n = JNum (Num (of_nat n))"

definition serverEndpoints :: "(string \<times> string) list" where
  "serverEndpoints =
     [(''kr'', ''kr.api.riotgames.com''),
      (''jp1'', ''jp1.api.riotgames.com''),
      (''na1'', ''na1.api.riotgames.com''),
      (''br1'', ''br1.api.riotgames.com''),
      (''lan'', ''lan.api.riotgames.com''),
      (''las'', ''las.api.riotgames.com''),
      (''oc1'', ''oc1.api.riotgames.com''),
      (''euw1'', ''euw1.api.riotgames.com''),
      (''eun1'', ''eun1.api.riotgames.com''),
      (''tr1'', ''tr1.api.riotgames.com''),
      (''ru'', ''ru.api.riotgames.com'')]"

definition regionEndpoints :: "(string \<times> string) list" where
  "regionEndpoints =
     [(''americas'', ''americas.api.riotgames.com''),
      (''asia'', ''asia.api.riotgames.com''),
      (''europe'', ''europe.api.riotgames.com''),
      (''sea'', ''sea.api.riotgames.com'')]"

text \<open>\<open>Object.keys(table)\<close>, as a value.\<close>

definition object_keys :: "(string \<times> 'v) list \<Rightarrow> json" where
  "object_keys table = JArr (map (\<lambda>kv. JStr (fst kv)) table)"

definition summoner_url :: "string \<Rightarrow> string \<Rightarrow> string" where
  "summoner_url host puuid = ''https://'' @ host @ ''/lol/summoner/v4/summoners/by-puuid/'' @ puuid"

definition rank_url :: "string \<Rightarrow> string \<Rightarrow> string" where
  "rank_url host summonerId = ''https://'' @ host @ ''/lol/league/v4/entries/by-summoner/'' @ summonerId"

definition account_url :: "string \<Rightarrow> string \<Rightarrow> string \<Rightarrow> string" where
  "account_url host gameName tagLine =
     ''https://'' @ host @ ''/riot/account/v1/accounts/by-riot-id/''
       @ encodeURIComponent gameName @ ''/'' @ encodeURIComponent tagLine"

section \<open>Rank flow (api/rank/[puuid].js)\<close>

definition tierValues :: "(string \<times> nat) list" where
  "tierValues =
     [(''IRON'', 1), (''BRONZE'', 2), (''SILVER'', 3), (''GOLD'', 4), (''PLATINUM'', 5),
      (''EMERALD'', 6), (''DIAMOND'', 7), (''MASTER'', 8), (''GRANDMASTER'', 9),
      (''CHALLENGER'', 10)]"

text \<open>
  \<open>tierValues[tier] || 0\<close>: a number for a tier of the table and for a tier nothing
  answers to, the inherited member itself for a tier that names one. An absent tier
  is looked up under the key \<open>undefined\<close>.
\<close>

datatype tier_value = TierNum nat | TierMember string

definition getTierValue :: "string option \<Rightarrow> tier_value" where
  "getTierValue tier =
     (case js_lookup tierValues (template_str tier) of
        Own v \<Rightarrow> if v \<noteq> 0 then TierNum v else TierNum 0
      | Inherited k \<Rightarrow> TierMember k
      | Missing \<Rightarrow> TierNum 0)"

text \<open>
  \<open>a > b\<close> on what \<open>getTierValue\<close> returns. A member next to a number becomes a string
  that is no number, hence \<open>NaN\<close>, and every comparison with it is false; two members
  compare as strings.
\<close>

fun js_gt :: "tier_value \<Rightarrow> tier_value \<Rightarrow> bool" where
  "js_gt (TierNum a) (TierNum b) = (b < a)"
| "js_gt (TierMember a) (TierMember b) = str_less (render_inherited b) (render_inherited a)"
| "js_gt _ _ = False"

text \<open>\<open>Math.round((wins / (wins + losses)) * 100 * 100) / 100\<close>\<close>

definition winRate_of :: "int \<Rightarrow> int \<Rightarrow> jsnum" where
  "winRate_of w l =
     js_div
       (math_round
          (js_mul (js_mul (js_div (Num (of_int w)) (js_add (Num (of_int w)) (Num (of_int l))))
                          (Num 100))
                  (Num 100)))
       (Num 100)"

record rank_entry =
  queueType :: json
  tier :: "string option"
  rank :: json
  leaguePoints :: json
  wins :: int
  losses :: int
  winRate :: jsnum
  veteran :: json
  inactive :: json
  freshBlood :: json
  hotStreak :: json
  leagueName :: json
  miniSeries :: json

text \<open>The arrow function of \<open>rankData.map\<close>.\<close>

definition process_entry :: "league_entry \<Rightarrow> rank_entry" where
  "process_entry entry =
     \<lparr>queueType = e_queueType entry,
      tier = e_tier entry,
      rank = e_rank entry,
      leaguePoints = e_leaguePoints entry,
      wins = e_wins entry,
      losses = e_losses entry,
      winRate = winRate_of (e_wins entry) (e_losses entry),
      veteran = js_or (e_veteran entry) (JBool False),
      inactive = js_or (e_inactive entry) (JBool False),
      freshBlood = js_or (e_freshBlood entry) (JBool False),
      hotStreak = js_or (e_hotStreak entry) (JBool False),
      leagueName = js_or (e_leagueName entry) JNull,
      miniSeries = js_or (e_miniSeries entry) JNull\<rparr>"

definition rank_entry_json :: "rank_entry \<Rightarrow> json" where
  "rank_entry_json r =
     JObj [(''queueType'', queueType r),
           (''tier'', opt_str (tier r)),
           (''rank'', rank r),
           (''leaguePoints'', leaguePoints r),
           (''wins'', JNum (Num (of_int (wins r)))),
           (''losses'', JNum (Num (of_int (losses r)))),
           (''winRate'', JNum (winRate r)),
           (''veteran'', veteran r),
           (''inactive'', inactive r),
           (''freshBlood'', freshBlood r),
           (''hotStreak'', hotStreak r),
           (''leagueName'', leagueName r),
           (''miniSeries'', miniSeries r)]"

text \<open>The callback of \<open>reduce\<close>, and the reduction from the first entry on.\<close>

definition higher :: "rank_entry \<Rightarrow> rank_entry \<Rightarrow> rank_entry" where
  "higher highest current =
     (if js_gt (getTierValue (tier current)) (getTierValue (tier highest))
      then current else highest)"

definition highestTier :: "rank_entry list \<Rightarrow> json" where
  "highestTier processedRanks =
     (case processedRanks of
        [] \<Rightarrow> JNull
      | first # rest \<Rightarrow> opt_str (tier (foldl higher first rest)))"

definition summary :: "rank_entry list \<Rightarrow> json" where
  "summary processedRanks =
     JObj [(''totalRankedQueues'', nat_num (length processedRanks)),
           (''highestTier'', highestTier processedRanks)]"

record rank_query =
  r_method :: string
  r_puuid :: "string option"
  r_server :: "string option"

definition rank_response ::
  "string \<Rightarrow> string \<Rightarrow> string \<Rightarrow> summoner_dto \<Rightarrow> league_entry list \<Rightarrow> json" where
  "rank_response now server puuid summonerData rankData =
     (let processedRanks = map process_entry rankData in
      JObj [(''success'', JBool True),
            (''data'',
               JObj [(''puuid'', JStr puuid),
                     (''summonerId'', opt_str (s_id summonerData)),
                     (''summonerLevel'', s_summonerLevel summonerData),
                     (''ranks'', JArr (map rank_entry_json processedRanks)),
                     (''summary'', summary processedRanks)]),
            (''metadata'', JObj [(''server'', JStr server), (''timestamp'', JStr now)])])"

text \<open>
  Each stage returns what it sends or what it throws, and the upstream calls issued so
  far, oldest first, each marked with the \<open>fetch\<close> site it comes from.
\<close>

datatype upstream_call = AccountCall request | SummonerCall request | EntriesCall request

type_synonym outcome = "(exn + http_out) \<times> upstream_call list"

text \<open>Step 2: the rank entries of the summoner id.\<close>

definition rank_entries_stage ::
  "upstream \<Rightarrow> string \<Rightarrow> string \<Rightarrow> string \<Rightarrow> string \<Rightarrow> string \<Rightarrow> upstream_call list
     \<Rightarrow> summoner_dto \<Rightarrow> outcome" where
  "rank_entries_stage up apiKey now server endpoint puuid calls summonerData =
     (let rq = riot_request (rank_url endpoint (template_str (s_id summonerData))) apiKey in
      case fetch_entries up rq of
        Rejected m \<Rightarrow> (Inl (TypeError m), calls @ [EntriesCall rq])
      | Resolved rankResponse \<Rightarrow>
          if \<not> ok rankResponse
          then (Inr (send_json (status rankResponse)
                       (JObj [(''success'', JBool False),
                              (''error'', JStr ''Failed to get rank info''),
                              (''status'', nat_num (status rankResponse))])),
                calls @ [EntriesCall rq])
          else (case body_json rankResponse of
                  Inl m \<Rightarrow> (Inl (SyntaxError m), calls @ [EntriesCall rq])
                | Inr rankData \<Rightarrow>
                    (Inr (send_json 200 (rank_response now server puuid summonerData rankData)),
                     calls @ [EntriesCall rq])))"

text \<open>Step 1: the summoner of the PUUID.\<close>

definition rank_summoner_stage ::
  "upstream \<Rightarrow> string \<Rightarrow> string \<Rightarrow> string \<Rightarrow> string \<Rightarrow> string \<Rightarrow> outcome" where
  "rank_summoner_stage up apiKey now server endpoint puuid =
     (let rq = riot_request (summoner_url endpoint puuid) apiKey in
      case fetch_summoner up rq of
        Rejected m \<Rightarrow> (Inl (TypeError m), [SummonerCall rq])
      | Resolved summonerResponse \<Rightarrow>
          if \<not> ok summonerResponse
          then if status summonerResponse = 404
               then (Inr (send_json 404
                            (JObj [(''success'', JBool False),
                                   (''error'', JStr ''Summoner not found on this server''),
                                   (''message'', JStr (''No summoner found with PUUID on ''
                                                        @ server @ '' server''))])),
                     [SummonerCall rq])
               else (Inr (send_json (status summonerResponse)
                            (JObj [(''success'', JBool False),
                                   (''error'', JStr ''Failed to get summoner info''),
                                   (''status'', nat_num (status summonerResponse))])),
                     [SummonerCall rq])
          else (case body_json summonerResponse of
                  Inl m \<Rightarrow> (Inl (SyntaxError m), [SummonerCall rq])
                | Inr summonerData \<Rightarrow>
                    rank_entries_stage up apiKey now server endpoint puuid [SummonerCall rq]
                      summonerData))"

definition puuid_required :: http_out where
  "puuid_required =
     send_json 400 (JObj [(''success'', JBool False),
                          (''error'', JStr ''PUUID is required''),
                          (''example'', JStr ''/api/rank/{puuid}?server=kr'')])"

definition api_key_not_configured :: http_out where
  "api_key_not_configured =
     send_json 500 (JObj [(''success'', JBool False), (''error'', JStr ''API key not configured'')])"

definition invalid_server :: http_out where
  "invalid_server =
     send_json 400 (JObj [(''success'', JBool False),
                          (''error'', JStr ''Invalid server''),
                          (''validServers'', object_keys serverEndpoints)])"

text \<open>The body of the \<open>try\<close> block.\<close>

definition rank_try :: "upstream \<Rightarrow> string option \<Rightarrow> string \<Rightarrow> rank_query \<Rightarrow> outcome" where
  "rank_try up env_key now req =
     (if falsy_str (r_puuid req) then (Inr puuid_required, [])
      else if falsy_str env_key then (Inr api_key_not_configured, [])
      else
        let puuid = str_or (r_puuid req) [];
            apiKey = str_or env_key [];
            server = str_or (r_server req) ''kr''
        in case js_lookup serverEndpoints server of
             Missing \<Rightarrow> (Inr invalid_server, [])
           | Inherited k \<Rightarrow> (Inl (invalid_url (summoner_url (render_inherited k) puuid)), [])
           | Own endpoint \<Rightarrow> rank_summoner_stage up apiKey now server endpoint puuid)"

text \<open>The handler: method gate, the \<open>try\<close> block, and the \<open>catch\<close>.\<close>

definition catch :: "outcome \<Rightarrow> http_out \<times> upstream_call list" where
  "catch r = (case fst r of Inl e \<Rightarrow> (internal_error e, snd r) | Inr out \<Rightarrow> (out, snd r))"

definition rank_handler ::
  "upstream \<Rightarrow> string option \<Rightarrow> string \<Rightarrow> rank_query
     \<Rightarrow> http_out \<times> upstream_call list" where
  "rank_handler up env_key now req =
     (if r_method req = ''OPTIONS'' then (send_end 200, [])
      else if r_method req \<noteq> ''GET'' then (method_not_allowed, [])
      else catch (rank_try up env_key now req))"

section \<open>Identity flow (api/summoner/[...params].js)\<close>

text \<open>
  \<open>params\<close> is the list of path segments after \<open>/api/summoner/\<close>, absent when the
  route supplies none.
\<close>

record summoner_query =
  q_method :: string
  q_params :: "string list option"
  q_region :: "string option"
  q_server :: "string option"

definition invalid_url_format :: http_out where
  "invalid_url_format =
     send_json 400
       (JObj [(''success'', JBool False),
              (''error'', JStr ''Invalid URL format. Expected: /api/summoner/{gameName}/{tagLine}''),
              (''example'', JStr ''/api/summoner/Hide%20on%20bush/KR1'')])"

definition server_configuration_error :: http_out where
  "server_configuration_error =
     send_json 500 (JObj [(''success'', JBool False),
                          (''error'', JStr ''Server configuration error''),
                          (''message'', JStr ''API key not found'')])"

definition invalid_region :: http_out where
  "invalid_region =
     send_json 400 (JObj [(''success'', JBool False),
                          (''error'', JStr ''Invalid region''),
                          (''validRegions'', object_keys regionEndpoints)])"

definition summoner_not_found :: "string \<Rightarrow> string \<Rightarrow> http_out" where
  "summoner_not_found gameName tagLine =
     send_json 404
       (JObj [(''success'', JBool False),
              (''error'', JStr ''Summoner not found''),
              (''message'', JStr (''No summoner found with Riot ID: '' @ gameName @ ''#'' @ tagLine)),
              (''suggestions'',
                 JArr [JStr ''Check the spelling of the game name'',
                       JStr ''Verify the tag line (e.g., KR1, NA1, EUW1)'',
                       JStr ''Make sure the account exists in the specified region''])])"

definition api_authentication_failed :: http_out where
  "api_authentication_failed =
     send_json 403 (JObj [(''success'', JBool False),
                          (''error'', JStr ''API authentication failed''),
                          (''message'', JStr ''Invalid or expired API key'')])"

definition riot_api_error :: "nat \<Rightarrow> string \<Rightarrow> http_out" where
  "riot_api_error st errorText =
     send_json st (JObj [(''success'', JBool False),
                         (''error'', JStr ''Riot API error''),
                         (''status'', nat_num st),
                         (''details'', JStr errorText)])"

text \<open>The final response; the summoner fields are spread in only when there is a record.\<close>

definition summoner_response ::
  "string \<Rightarrow> string \<Rightarrow> string \<Rightarrow> account_dto \<Rightarrow> summoner_dto option \<Rightarrow> json" where
  "summoner_response now region server accountData summonerData =
     JObj [(''success'', JBool True),
           (''data'',
              JObj ([(''puuid'', opt_str (a_puuid accountData)),
                     (''gameName'', a_gameName accountData),
                     (''tagLine'', a_tagLine accountData)]
                    @ (case summonerData of
                         None \<Rightarrow> []
                       | Some sd \<Rightarrow>
                           [(''summonerId'', opt_str (s_id sd)),
                            (''accountId'', s_accountId sd),
                            (''summonerLevel'', s_summonerLevel sd),
                            (''profileIconId'', s_profileIconId sd),
                            (''revisionDate'', s_revisionDate sd)]))),
           (''metadata'',
              JObj [(''region'', JStr region), (''server'', JStr server), (''timestamp'', JStr now)])]"

text \<open>Step 2: the summoner of the account on the chosen server, when there is one.\<close>

definition summoner_stage ::
  "upstream \<Rightarrow> string \<Rightarrow> string \<Rightarrow> string \<Rightarrow> string option \<Rightarrow> upstream_call list
     \<Rightarrow> account_dto \<Rightarrow> outcome" where
  "summoner_stage up apiKey now region q_srv calls accountData =
     (let server = str_or q_srv ''kr'' in
      case js_lookup serverEndpoints server of
        Missing \<Rightarrow>
          (Inr (send_json 200 (summoner_response now region server accountData None)), calls)
      | Inherited k \<Rightarrow>
          (Inl (invalid_url (summoner_url (render_inherited k) (template_str (a_puuid accountData)))),
           calls)
      | Own serverEndpoint \<Rightarrow>
          let rq = riot_request (summoner_url serverEndpoint (template_str (a_puuid accountData)))
                     apiKey
          in (case fetch_summoner up rq of
                Rejected m \<Rightarrow> (Inl (TypeError m), calls @ [SummonerCall rq])
              | Resolved summonerResponse \<Rightarrow>
                  if ok summonerResponse
                  then (case body_json summonerResponse of
                          Inl m \<Rightarrow> (Inl (SyntaxError m), calls @ [SummonerCall rq])
                        | Inr sd \<Rightarrow>
                            (Inr (send_json 200
                                    (summoner_response now region server accountData (Some sd))),
                             calls @ [SummonerCall rq]))
                  else (Inr (send_json 200 (summoner_response now region server accountData None)),
                        calls @ [SummonerCall rq])))"

text \<open>Step 1: the account of the Riot ID.\<close>

definition account_stage ::
  "upstream \<Rightarrow> string \<Rightarrow> string \<Rightarrow> string \<Rightarrow> string option \<Rightarrow> string \<Rightarrow> string
     \<Rightarrow> string \<Rightarrow> outcome" where
  "account_stage up apiKey now region q_srv endpoint gameName tagLine =
     (let rq = riot_request (account_url endpoint gameName tagLine) apiKey in
      case fetch_account up rq of
        Rejected m \<Rightarrow> (Inl (TypeError m), [AccountCall rq])
      | Resolved accountResponse \<Rightarrow>
          if \<not> ok accountResponse
          then if status accountResponse = 404
               then (Inr (summoner_not_found gameName tagLine), [AccountCall rq])
               else if status accountResponse = 403
               then (Inr api_authentication_failed, [AccountCall rq])
               else (Inr (riot_api_error (status accountResponse) (body_text accountResponse)),
                     [AccountCall rq])
          else (case body_json accountResponse of
                  Inl m \<Rightarrow> (Inl (SyntaxError m), [AccountCall rq])
                | Inr accountData \<Rightarrow>
                    summoner_stage up apiKey now region q_srv [AccountCall rq] accountData))"

text \<open>The body of the \<open>try\<close> block.\<close>

definition summoner_try ::
  "upstream \<Rightarrow> string option \<Rightarrow> string \<Rightarrow> summoner_query \<Rightarrow> outcome" where
  "summoner_try up env_key now req =
     (case q_params req of
        None \<Rightarrow> (Inr invalid_url_format, [])
      | Some [] \<Rightarrow> (Inr invalid_url_format, [])
      | Some [_] \<Rightarrow> (Inr invalid_url_format, [])
      | Some (rawGameName # rawTagLine # _) \<Rightarrow>
          (case decodeURIComponent rawGameName of
             None \<Rightarrow> (Inl uri_malformed, [])
           | Some gameName \<Rightarrow>
               (case decodeURIComponent rawTagLine of
                  None \<Rightarrow> (Inl uri_malformed, [])
                | Some tagLine \<Rightarrow>
                    if falsy_str env_key then (Inr server_configuration_error, [])
                    else
                      let apiKey = str_or env_key [];
                          region = str_or (q_region req) ''asia''
                      in (case js_lookup regionEndpoints region of
                            Missing \<Rightarrow> (Inr invalid_region, [])
                          | Inherited k \<Rightarrow>
                              (Inl (invalid_url (account_url (render_inherited k) gameName tagLine)),
                               [])
                          | Own endpoint \<Rightarrow>
                              account_stage up apiKey now region (q_server req) endpoint
                                gameName tagLine))))"

definition summoner_handler ::
  "upstream \<Rightarrow> string option \<Rightarrow> string \<Rightarrow> summoner_query
     \<Rightarrow> http_out \<times> upstream_call list" where
  "summoner_handler up env_key now req =
     (if q_method req = ''OPTIONS'' then (send_end 200, [])
      else if q_method req \<noteq> ''GET'' then (method_not_allowed, [])
      else catch (summoner_try up env_key now req))"

section \<open>Notions used to state the properties\<close>

text \<open>
  The tier table as the specification words it: ten named tiers, and 0 for every other
  tier and for an absent one.
\<close>

definition tier_ordinal :: "string option \<Rightarrow> nat" where
  "tier_ordinal t =
     (case t of
        None \<Rightarrow> 0
      | Some s \<Rightarrow> (case map_of tierValues s of Some v \<Rightarrow> v | None \<Rightarrow> 0))"

text \<open>A key that names no member inherited from \<open>Object.prototype\<close>.\<close>

definition plain_key :: "string \<Rightarrow> bool" where
  "plain_key k = (k \<notin> set object_prototype_keys)"

definition plain_tier :: "string option \<Rightarrow> bool" where
  "plain_tier t = plain_key (template_str t)"

text \<open>A percent sign that two hexadecimal digits do not follow.\<close>

fun malformed_escape :: "string \<Rightarrow> bool" where
  "malformed_escape [] = False"
| "malformed_escape (c # s) = ((c = CHR ''%'' \<and> parse_hex_octet s = None) \<or> malformed_escape s)"

text \<open>A summoner lookup that yields a record: a 2xx response whose body parses.\<close>

fun lookup_succeeded :: "'b fetch_result \<Rightarrow> bool" where
  "lookup_succeeded (Rejected m) = False"
| "lookup_succeeded (Resolved r) =
     (ok r \<and> (case body_json r of Inl m \<Rightarrow> False | Inr b \<Rightarrow> True))"

text \<open>
  The shape every response to a GET is to have: a body, \<open>success: true\<close> exactly under
  status 200, and under any other status \<open>success: false\<close> with an error text.
\<close>

fun nonempty_string :: "json \<Rightarrow> bool" where
  "nonempty_string (JStr s) = (s \<noteq> [])"
| "nonempty_string _ = False"

definition envelope_ok :: "http_out \<Rightarrow> bool" where
  "envelope_ok out =
     (case out_body out of
        None \<Rightarrow> False
      | Some b \<Rightarrow>
          ((out_status out = 200) = (field ''success'' b = JBool True))
          \<and> (out_status out \<noteq> 200 \<longrightarrow>
                field ''success'' b = JBool False \<and> nonempty_string (field ''error'' b)))"

text \<open>A property of the body sent, \<open>undefined\<close> when there is no body or no such property.\<close>

definition body_field :: "string \<Rightarrow> http_out \<Rightarrow> json" where
  "body_field k out = (case out_body out of None \<Rightarrow> JUndefined | Some b \<Rightarrow> field k b)"

text \<open>
  How the summoner lookup of the identity flow can end without a record: quietly, when
  the server key names nothing or the response is not 2xx; or with an exception, when
  \<open>fetch\<close> rejects or a 2xx body does not parse.
\<close>

definition summoner_absent :: "upstream \<Rightarrow> string \<Rightarrow> string \<Rightarrow> string \<Rightarrow> bool" where
  "summoner_absent up apiKey server puuid =
     (case js_lookup serverEndpoints server of
        Missing \<Rightarrow> True
      | Inherited k \<Rightarrow> False
      | Own serverEndpoint \<Rightarrow>
          (case fetch_summoner up (riot_request (summoner_url serverEndpoint puuid) apiKey) of
             Rejected m \<Rightarrow> False
           | Resolved r \<Rightarrow> \<not> ok r))"

definition summoner_throws :: "upstream \<Rightarrow> string \<Rightarrow> string \<Rightarrow> string \<Rightarrow> bool" where
  "summoner_throws up apiKey server puuid =
     (case js_lookup serverEndpoints server of
        Missing \<Rightarrow> False
      | Inherited k \<Rightarrow> False
      | Own serverEndpoint \<Rightarrow>
          (case fetch_summoner up (riot_request (summoner_url serverEndpoint puuid) apiKey) of
             Rejected m \<Rightarrow> True
           | Resolved r \<Rightarrow> ok r \<and> (case body_json r of Inl m \<Rightarrow> True | Inr sd \<Rightarrow> False)))"

text \<open>A response with the \<open>timestamp\<close> taken out of its \<open>metadata\<close>.\<close>

fun drop_key :: "string \<Rightarrow> json \<Rightarrow> json" where
  "drop_key k (JObj kvs) = JObj (filter (\<lambda>kv. fst kv \<noteq> k) kvs)"
| "drop_key k v = v"

fun without_timestamp :: "json \<Rightarrow> json" where
  "without_timestamp (JObj kvs) =
     JObj (map (\<lambda>kv. if fst kv = ''metadata''
                     then (fst kv, drop_key ''timestamp'' (snd kv)) else kv)
             kvs)"
| "without_timestamp v = v"

definition payload :: "http_out \<Rightarrow> http_out" where
  "payload out = out\<lparr>out_body := map_option without_timestamp (out_body out)\<rparr>"

text \<open>What a run shows to the outside, the timestamp apart: the response and the calls.\<close>

definition observable ::
  "http_out \<times> upstream_call list \<Rightarrow> http_out \<times> upstream_call list" where
  "observable r = (payload (fst r), snd r)"

subsection \<open>Concrete inputs\<close>

definition sample_entry :: "string option \<Rightarrow> int \<Rightarrow> int \<Rightarrow> league_entry" where
  "sample_entry t w l =
     \<lparr>e_queueType = JStr ''RANKED_SOLO_5x5'', e_tier = t, e_rank = JStr ''II'',
      e_leaguePoints = JNum (Num 40), e_wins = w, e_losses = l,
      e_veteran = JBool False, e_inactive = JUndefined, e_freshBlood = JUndefined,
      e_hotStreak = JBool True, e_leagueName = JUndefined, e_miniSeries = JUndefined\<rparr>"

definition sample_account :: account_dto where
  "sample_account =
     \<lparr>a_puuid = Some ''puuid-1'', a_gameName = JStr ''Hide on bush'', a_tagLine = JStr ''KR1''\<rparr>"

definition sample_summoner :: summoner_dto where
  "sample_summoner =
     \<lparr>s_id = Some ''summoner-1'', s_accountId = JStr ''account-1'',
      s_summonerLevel = JNum (Num 700), s_profileIconId = JNum (Num 6),
      s_revisionDate = JNum (Num 1700000000000)\<rparr>"

text \<open>A response with a status and an error page for a body, and one with a parsed body.\<close>

definition status_reply :: "nat \<Rightarrow> 'b fetch_result" where
  "status_reply n =
     Resolved \<lparr>status = n, body_text = ''error page'',
               body_json = Inl ''Unexpected token e in JSON at position 0''\<rparr>"

definition json_reply :: "'b \<Rightarrow> 'b fetch_result" where
  "json_reply b = Resolved \<lparr>status = 200, body_text = [], body_json = Inr b\<rparr>"

text \<open>An upstream that gives each endpoint one answer, whatever the request.\<close>

definition replies ::
  "account_dto fetch_result \<Rightarrow> summoner_dto fetch_result \<Rightarrow> league_entry list fetch_result
     \<Rightarrow> upstream" where
  "replies a s e =
     \<lparr>fetch_account = (\<lambda>rq. a), fetch_summoner = (\<lambda>rq. s), fetch_entries = (\<lambda>rq. e)\<rparr>"

definition identity_query :: "string option \<Rightarrow> string option \<Rightarrow> summoner_query" where
  "identity_query region server =
     \<lparr>q_method = ''GET'', q_params = Some [''Hide%20on%20bush'', ''KR1''],
      q_region = region, q_server = server\<rparr>"

definition rank_query_of :: "string option \<Rightarrow> rank_query" where
  "rank_query_of server = \<lparr>r_method = ''GET'', r_puuid = Some ''puuid-1'', r_server = server\<rparr>"

section \<open>Win rate\<close>

lemma winRate_of_played:
  "w + l \<noteq> 0 \<Longrightarrow>
     winRate_of w l
       = Num (of_int \<lfloor>rat_of_int w / rat_of_int (w + l) * 10000 + 1 / 2\<rfloor> / 100)"
  by (simp add: winRate_of_def mult.commute)

lemma winRate_of_unplayed:
  "w + l = 0 \<Longrightarrow> winRate_of w l = (if w = 0 then NaN else if 0 < w then PosInf else NegInf)"
  by (simp add: winRate_of_def)

text \<open>
  C1. The derived win rate is wins / (wins + losses) as a percentage with two decimals;
  the claim has it 0 for an entry with no games and 70 for 7 wins and 3 losses. The code
  divides without a guard: with 7 and 3 it gives 70, with 0 and 0 it gives \<open>NaN\<close>
  (serialised as \<open>null\<close>), not 0.
\<close>

theorem winRate_no_games:
  "winRate (process_entry (sample_entry (Some ''GOLD'') 0 0)) = NaN
   \<and> winRate (process_entry (sample_entry (Some ''GOLD'') 7 3)) = Num 70"
  by (simp add: process_entry_def sample_entry_def winRate_of_def floor_eq_iff)

section \<open>Highest tier\<close>

lemma undefined_not_tier: "map_of tierValues ''undefined'' = None"
  by (simp add: tierValues_def)

lemma getTierValue_plain: "plain_tier t \<Longrightarrow> getTierValue t = TierNum (tier_ordinal t)"
  by (cases t)
     (auto simp: getTierValue_def js_lookup_def plain_tier_def plain_key_def tier_ordinal_def
         template_str_def undefined_not_tier split: option.splits)

lemma higher_plain:
  "plain_tier (tier a) \<Longrightarrow> plain_tier (tier b) \<Longrightarrow>
     higher a b = (if tier_ordinal (tier a) < tier_ordinal (tier b) then b else a)"
  by (simp add: higher_def getTierValue_plain)

text \<open>
  On tiers that name no inherited member the reduction returns the first entry of
  maximal ordinal: every entry before it is strictly lower, none after it is higher.
\<close>

lemma foldl_higher_first_max:
  assumes "\<forall>e \<in> set (first # rest). plain_tier (tier e)"
  shows "\<exists>before after.
           first # rest = before @ foldl higher first rest # after
           \<and> (\<forall>e \<in> set before.
                 tier_ordinal (tier e) < tier_ordinal (tier (foldl higher first rest)))
           \<and> (\<forall>e \<in> set after.
                 tier_ordinal (tier e) \<le> tier_ordinal (tier (foldl higher first rest)))"
  using assms
proof (induction rest rule: rev_induct)
  case Nil
  have "[first] = [] @ first # []" by simp
  then show ?case by force
next
  case (snoc x xs)
  let ?h = "foldl higher first xs"
  let ?ord = "\<lambda>e. tier_ordinal (tier e)"
  from snoc obtain before after where split: "first # xs = before @ ?h # after"
    and lt: "\<forall>e \<in> set before. ?ord e < ?ord ?h"
    and le: "\<forall>e \<in> set after. ?ord e \<le> ?ord ?h" by auto
  have px: "plain_tier (tier x)" using snoc.prems by simp
  have "?h \<in> set (first # xs)" unfolding split by simp
  then have ph: "plain_tier (tier ?h)" using snoc.prems by auto
  have step: "foldl higher first (xs @ [x]) = (if ?ord ?h < ?ord x then x else ?h)"
    using px ph by (simp add: higher_plain)
  show ?case
  proof (cases "?ord ?h < ?ord x")
    case True
    have eq: "first # xs @ [x] = (before @ ?h # after) @ x # []" using split by simp
    have all: "\<forall>e \<in> set (before @ ?h # after). ?ord e < ?ord x"
      using lt le True by fastforce
    have res: "foldl higher first (xs @ [x]) = x" using step True by simp
    show ?thesis unfolding res
      by (rule exI [of _ "before @ ?h # after"], rule exI [of _ "[]"]) (use eq all in simp)
  next
    case False
    have eq: "first # xs @ [x] = before @ ?h # (after @ [x])" using split by simp
    have all: "\<forall>e \<in> set (after @ [x]). ?ord e \<le> ?ord ?h" using le False by auto
    have res: "foldl higher first (xs @ [x]) = ?h" using step False by simp
    show ?thesis unfolding res
      by (rule exI [of _ before], rule exI [of _ "after @ [x]"]) (use eq all lt in simp)
  qed
qed

lemma highestTier_first_max:
  assumes "rs \<noteq> []" and "\<forall>e \<in> set rs. plain_tier (tier e)"
  shows "\<exists>before r after.
           rs = before @ r # after
           \<and> highestTier rs = opt_str (tier r)
           \<and> (\<forall>e \<in> set before. tier_ordinal (tier e) < tier_ordinal (tier r))
           \<and> (\<forall>e \<in> set after. tier_ordinal (tier e) \<le> tier_ordinal (tier r))"
proof -
  from assms(1) obtain first rest where rs: "rs = first # rest" by (cases rs) auto
  from foldl_higher_first_max [of first rest] assms(2) rs
  obtain before after where "first # rest = before @ foldl higher first rest # after"
    and "\<forall>e \<in> set before.
           tier_ordinal (tier e) < tier_ordinal (tier (foldl higher first rest))"
    and "\<forall>e \<in> set after.
           tier_ordinal (tier e) \<le> tier_ordinal (tier (foldl higher first rest))"
    by auto
  moreover have "highestTier rs = opt_str (tier (foldl higher first rest))"
    by (simp add: rs highestTier_def)
  ultimately show ?thesis unfolding rs by blast
qed

lemma summary_counts:
  "field ''totalRankedQueues'' (summary rs) = nat_num (length rs)
   \<and> field ''highestTier'' (summary []) = JNull"
  by (simp add: summary_def highestTier_def)

lemma highestTier_silver_diamond_gold:
  "highestTier (map process_entry [sample_entry (Some ''SILVER'') 1 1,
      sample_entry (Some ''DIAMOND'') 1 1, sample_entry (Some ''GOLD'') 1 1]) = JStr ''DIAMOND''"
  by (simp add: highestTier_def sample_entry_def process_entry_def higher_def getTierValue_def
      js_lookup_def tierValues_def template_str_def opt_str_def)

text \<open>
  C2. The summary counts the entries and reports the tier of the first entry of
  maximal ordinal, every tier outside the table counting 0. The lemmas above give this
  for tiers that name no inherited member. A tier such as \<open>constructor\<close> is outside
  the table, yet the lookup answers with the inherited member instead of 0; no
  comparison with it holds, and an entry carrying it in first place stays the highest
  even before a CHALLENGER entry.
\<close>

theorem highestTier_inherited_name:
  "highestTier (map process_entry [sample_entry (Some ''constructor'') 1 1,
      sample_entry (Some ''CHALLENGER'') 1 1]) = JStr ''constructor''
   \<and> getTierValue (Some ''constructor'') = TierMember ''constructor''
   \<and> tier_ordinal (Some ''constructor'') = 0"
  by (simp add: highestTier_def sample_entry_def process_entry_def higher_def getTierValue_def
      js_lookup_def tierValues_def object_prototype_keys_def template_str_def opt_str_def
      tier_ordinal_def)

section \<open>Facts shared by the flows\<close>

lemma catch_simps:
  "catch (Inl e, calls) = (internal_error e, calls)"
  "catch (Inr out, calls) = (out, calls)"
  by (simp_all add: catch_def)

lemma internal_error_envelope:
  "out_status (internal_error e) = 500"
  "out_body (internal_error e)
     = Some (JObj [(''success'', JBool False), (''error'', JStr ''Internal server error''),
                   (''message'', JStr (exn_message e))])"
  by (simp_all add: internal_error_def send_json_def)

lemma decode_hide_on_bush: "decodeURIComponent ''Hide%20on%20bush'' = Some ''Hide on bush''"
  by code_simp

lemma decode_kr1: "decodeURIComponent ''KR1'' = Some ''KR1''"
  by code_simp



lemma regionEndpoints_asia: "js_lookup regionEndpoints ''asia'' = Own ''asia.api.riotgames.com''"
  by (simp add: js_lookup_def regionEndpoints_def)

lemma account_url_hide_on_bush:
  "account_url ''asia.api.riotgames.com'' ''Hide on bush'' ''KR1''
   = ''https://asia.api.riotgames.com/riot/account/v1/accounts/by-riot-id/Hide%20on%20bush/KR1''"
  by code_simp

lemma serverEndpoints_kr: "js_lookup serverEndpoints ''kr'' = Own ''kr.api.riotgames.com''"
  by (simp add: js_lookup_def serverEndpoints_def)

lemma summoner_handler_reaches_account:
  assumes "q_method req = ''GET''" and "q_params req = Some (g # t # others)"
    and "decodeURIComponent g = Some gameName" and "decodeURIComponent t = Some tagLine"
    and "\<not> falsy_str env_key"
    and "js_lookup regionEndpoints (str_or (q_region req) ''asia'') = Own endpoint"
  shows "summoner_handler up env_key now req
         = catch (account_stage up (str_or env_key []) now (str_or (q_region req) ''asia'')
                    (q_server req) endpoint gameName tagLine)"
  using assms by (simp add: summoner_handler_def summoner_try_def)

lemma account_stage_not_ok:
  assumes "fetch_account up (riot_request (account_url endpoint gameName tagLine) apiKey) = Resolved r"
    and "\<not> ok r"
  shows "catch (account_stage up apiKey now region q_srv endpoint gameName tagLine)
         = (if status r = 404 then summoner_not_found gameName tagLine
            else if status r = 403 then api_authentication_failed
            else riot_api_error (status r) (body_text r),
            [AccountCall (riot_request (account_url endpoint gameName tagLine) apiKey)])"
  using assms by (simp add: account_stage_def catch_simps Let_def)

lemma account_stage_ok:
  assumes "fetch_account up (riot_request (account_url endpoint gameName tagLine) apiKey) = Resolved r"
    and "ok r" and "body_json r = Inr accountData"
  shows "account_stage up apiKey now region q_srv endpoint gameName tagLine
         = summoner_stage up apiKey now region q_srv
             [AccountCall (riot_request (account_url endpoint gameName tagLine) apiKey)] accountData"
  using assms by (simp add: account_stage_def Let_def)

lemma identity_query_run:
  "summoner_handler up (Some ''RGAPI-key'') now (identity_query None srv)
   = catch (account_stage up ''RGAPI-key'' now ''asia'' srv ''asia.api.riotgames.com''
              ''Hide on bush'' ''KR1'')"
  by (simp add: summoner_handler_def summoner_try_def identity_query_def decode_hide_on_bush
      decode_kr1 falsy_str_def str_or_def regionEndpoints_asia)

lemma rank_handler_reaches_summoner:
  assumes "r_method req = ''GET''" and "\<not> falsy_str (r_puuid req)" and "\<not> falsy_str env_key"
    and "js_lookup serverEndpoints (str_or (r_server req) ''kr'') = Own endpoint"
  shows "rank_handler up env_key now req
         = catch (rank_summoner_stage up (str_or env_key []) now (str_or (r_server req) ''kr'')
                    endpoint (str_or (r_puuid req) []))"
  using assms by (simp add: rank_handler_def rank_try_def)

section \<open>Rank flow: the summoner lookup is a hard dependency\<close>

lemma rank_summoner_stage_failed:
  assumes "\<not> lookup_succeeded
              (fetch_summoner up (riot_request (summoner_url endpoint puuid) apiKey))"
  shows "snd (catch (rank_summoner_stage up apiKey now server endpoint puuid))
           = [SummonerCall (riot_request (summoner_url endpoint puuid) apiKey)]
         \<and> out_status (fst (catch (rank_summoner_stage up apiKey now server endpoint puuid)))
             \<noteq> 200
         \<and> body_field ''success''
               (fst (catch (rank_summoner_stage up apiKey now server endpoint puuid)))
             = JBool False"
proof (cases "fetch_summoner up (riot_request (summoner_url endpoint puuid) apiKey)")
  case (Rejected m)
  then show ?thesis
    by (simp add: rank_summoner_stage_def catch_simps internal_error_envelope body_field_def)
next
  case (Resolved r)
  show ?thesis
  proof (cases "ok r")
    case True
    with assms Resolved obtain m where "body_json r = Inl m"
      by (auto split: sum.splits)
    with True Resolved show ?thesis
      by (simp add: rank_summoner_stage_def catch_simps internal_error_envelope body_field_def)
  next
    case False
    then have "status r \<noteq> 200" by (auto simp: ok_def)
    with False Resolved show ?thesis
      by (cases "status r = 404")
         (simp_all add: rank_summoner_stage_def catch_simps send_json_def Let_def body_field_def)
  qed
qed

text \<open>
  C5. In the rank flow, whenever the summoner lookup does not succeed (the fetch rejects,
  the status is not 2xx, or the body does not parse), the response is not a 200, it
  carries \<open>success: false\<close>, and the summoner lookup is the only upstream call issued:
  the rank entries are never asked for.
\<close>

theorem rank_flow_hard_fail:
  assumes "r_method req = ''GET''" and "\<not> falsy_str (r_puuid req)" and "\<not> falsy_str env_key"
    and "js_lookup serverEndpoints (str_or (r_server req) ''kr'') = Own endpoint"
    and "\<not> lookup_succeeded
            (fetch_summoner up
               (riot_request (summoner_url endpoint (str_or (r_puuid req) [])) (str_or env_key [])))"
  shows "snd (rank_handler up env_key now req)
           = [SummonerCall (riot_request (summoner_url endpoint (str_or (r_puuid req) []))
                              (str_or env_key []))]
         \<and> out_status (fst (rank_handler up env_key now req)) \<noteq> 200
         \<and> body_field ''success'' (fst (rank_handler up env_key now req)) = JBool False"
  using rank_summoner_stage_failed [OF assms(5)]
  unfolding rank_handler_reaches_summoner [OF assms(1-4)] .

theorem rank_flow_hard_fail_witness:
  "\<not> lookup_succeeded (status_reply 503 :: summoner_dto fetch_result)
   \<and> snd (rank_handler (replies (status_reply 404) (status_reply 503) (json_reply []))
            (Some ''RGAPI-key'') ''2024-01-01T00:00:00.000Z'' (rank_query_of None))
       = [SummonerCall (riot_request (summoner_url ''kr.api.riotgames.com'' ''puuid-1'')
                          ''RGAPI-key'')]
   \<and> out_status (fst (rank_handler (replies (status_reply 404) (status_reply 503) (json_reply []))
            (Some ''RGAPI-key'') ''2024-01-01T00:00:00.000Z'' (rank_query_of None))) = 503
   \<and> body_field ''success''
        (fst (rank_handler (replies (status_reply 404) (status_reply 503) (json_reply []))
            (Some ''RGAPI-key'') ''2024-01-01T00:00:00.000Z'' (rank_query_of None))) = JBool False"
proof -
  have "out_status (fst (rank_handler (replies (status_reply 404) (status_reply 503) (json_reply []))
            (Some ''RGAPI-key'') ''2024-01-01T00:00:00.000Z'' (rank_query_of None))) = 503"
    by (simp add: rank_handler_def rank_try_def rank_query_of_def falsy_str_def str_or_def
        serverEndpoints_kr rank_summoner_stage_def replies_def status_reply_def ok_def
        catch_simps send_json_def)
  then show ?thesis
    using rank_flow_hard_fail [of "rank_query_of None" "Some ''RGAPI-key''"
        "''kr.api.riotgames.com''"
        "replies (status_reply 404) (status_reply 503) (json_reply [])"
        "''2024-01-01T00:00:00.000Z''"]
    by (simp add: rank_query_of_def falsy_str_def str_or_def serverEndpoints_kr replies_def
        status_reply_def ok_def)
qed

section \<open>Identity flow: failures of the account lookup\<close>

text \<open>
  C7. When the account lookup answers 404, the identity flow sends status 404 with
  \<open>success: false\<close>, the error text \<open>Summoner not found\<close>, a message and the three
  suggestions, nothing else (no data, no summoner fields), and issues no further
  upstream call.
\<close>

theorem identity_not_found:
  assumes "q_method req = ''GET''" and "q_params req = Some (g # t # others)"
    and "decodeURIComponent g = Some gameName" and "decodeURIComponent t = Some tagLine"
    and "\<not> falsy_str env_key"
    and "js_lookup regionEndpoints (str_or (q_region req) ''asia'') = Own endpoint"
    and "fetch_account up (riot_request (account_url endpoint gameName tagLine) (str_or env_key []))
         = Resolved r"
    and "status r = 404"
  shows "summoner_handler up env_key now req
         = (\<lparr>out_status = 404,
             out_body = Some (JObj
               [(''success'', JBool False),
                (''error'', JStr ''Summoner not found''),
                (''message'', JStr (''No summoner found with Riot ID: '' @ gameName @ ''#'' @ tagLine)),
                (''suggestions'',
                   JArr [JStr ''Check the spelling of the game name'',
                         JStr ''Verify the tag line (e.g., KR1, NA1, EUW1)'',
                         JStr ''Make sure the account exists in the specified region''])])\<rparr>,
            [AccountCall (riot_request (account_url endpoint gameName tagLine) (str_or env_key []))])"
proof -
  have "\<not> ok r" using assms(8) by (simp add: ok_def)
  from account_stage_not_ok [OF assms(7) this] assms(8) show ?thesis
    unfolding summoner_handler_reaches_account [OF assms(1-6)]
    by (simp add: summoner_not_found_def send_json_def)
qed

theorem identity_not_found_witness:
  "fetch_account (replies (status_reply 404) (status_reply 404) (status_reply 404))
     (riot_request (account_url ''asia.api.riotgames.com'' ''Hide on bush'' ''KR1'') ''RGAPI-key'')
     = status_reply 404
   \<and> summoner_handler (replies (status_reply 404) (status_reply 404) (status_reply 404))
         (Some ''RGAPI-key'') ''2024-01-01T00:00:00.000Z'' (identity_query (Some ''asia'') None)
       = (\<lparr>out_status = 404,
           out_body = Some (JObj
             [(''success'', JBool False),
              (''error'', JStr ''Summoner not found''),
              (''message'', JStr ''No summoner found with Riot ID: Hide on bush#KR1''),
              (''suggestions'',
                 JArr [JStr ''Check the spelling of the game name'',
                       JStr ''Verify the tag line (e.g., KR1, NA1, EUW1)'',
                       JStr ''Make sure the account exists in the specified region''])])\<rparr>,
          [AccountCall (riot_request
             ''https://asia.api.riotgames.com/riot/account/v1/accounts/by-riot-id/Hide%20on%20bush/KR1''
             ''RGAPI-key'')])"
  using identity_not_found [of "identity_query (Some ''asia'') None" "''Hide%20on%20bush''" "''KR1''" "[]"
      "''Hide on bush''" "''KR1''" "Some ''RGAPI-key''" "''asia.api.riotgames.com''"
      "replies (status_reply 404) (status_reply 404) (status_reply 404)"
      "\<lparr>status = 404, body_text = ''error page'',
        body_json = Inl ''Unexpected token e in JSON at position 0''\<rparr>" "''2024-01-01T00:00:00.000Z''"]
  by (simp add: identity_query_def decode_hide_on_bush decode_kr1 falsy_str_def str_or_def
      regionEndpoints_asia replies_def status_reply_def account_url_hide_on_bush)

text \<open>
  C3, as amended. When the account lookup answers 403, the identity flow sends the
  \<open>API authentication failed\<close> envelope with status 403. A 401 is not treated so: it
  goes through the generic passthrough, \<open>Riot API error\<close> with the upstream status and
  body text.
\<close>

theorem account_auth_failure:
  assumes "q_method req = ''GET''" and "q_params req = Some (g # t # others)"
    and "decodeURIComponent g = Some gameName" and "decodeURIComponent t = Some tagLine"
    and "\<not> falsy_str env_key"
    and "js_lookup regionEndpoints (str_or (q_region req) ''asia'') = Own endpoint"
    and "fetch_account up (riot_request (account_url endpoint gameName tagLine) (str_or env_key []))
         = Resolved r"
  shows "(status r = 403 \<longrightarrow>
            fst (summoner_handler up env_key now req)
            = \<lparr>out_status = 403,
               out_body = Some (JObj [(''success'', JBool False),
                                      (''error'', JStr ''API authentication failed''),
                                      (''message'', JStr ''Invalid or expired API key'')])\<rparr>)
         \<and> (status r = 401 \<longrightarrow>
            fst (summoner_handler up env_key now req)
            = \<lparr>out_status = 401,
               out_body = Some (JObj [(''success'', JBool False),
                                      (''error'', JStr ''Riot API error''),
                                      (''status'', JNum (Num 401)),
                                      (''details'', JStr (body_text r))])\<rparr>)"
proof -
  have "\<not> ok r" if "status r = 403 \<or> status r = 401" using that by (auto simp: ok_def)
  then show ?thesis
    unfolding summoner_handler_reaches_account [OF assms(1-6)]
    using account_stage_not_ok [OF assms(7)]
    by (auto simp: api_authentication_failed_def riot_api_error_def send_json_def nat_num_def)
qed

theorem account_auth_failure_witness:
  "fetch_account (replies (status_reply 403) (status_reply 404) (status_reply 404))
     (riot_request (account_url ''asia.api.riotgames.com'' ''Hide on bush'' ''KR1'') ''RGAPI-key'')
     = status_reply 403
   \<and> fst (summoner_handler (replies (status_reply 403) (status_reply 404) (status_reply 404))
         (Some ''RGAPI-key'') ''2024-01-01T00:00:00.000Z'' (identity_query None None))
       = \<lparr>out_status = 403,
          out_body = Some (JObj [(''success'', JBool False),
                                 (''error'', JStr ''API authentication failed''),
                                 (''message'', JStr ''Invalid or expired API key'')])\<rparr>"
  using account_auth_failure [of "identity_query None None" "''Hide%20on%20bush''" "''KR1''" "[]"
      "''Hide on bush''" "''KR1''" "Some ''RGAPI-key''" "''asia.api.riotgames.com''"
      "replies (status_reply 403) (status_reply 404) (status_reply 404)"
      "\<lparr>status = 403, body_text = ''error page'',
        body_json = Inl ''Unexpected token e in JSON at position 0''\<rparr>" "''2024-01-01T00:00:00.000Z''"]
  by (simp add: identity_query_def decode_hide_on_bush decode_kr1 falsy_str_def str_or_def
      regionEndpoints_asia replies_def status_reply_def)

text \<open>
  C3 as stated fails at 401: the response is the generic passthrough, and its error
  text is not \<open>API authentication failed\<close>.
\<close>

theorem account_401_passthrough:
  "fst (summoner_handler (replies (status_reply 401) (status_reply 404) (status_reply 404))
         (Some ''RGAPI-key'') ''2024-01-01T00:00:00.000Z'' (identity_query None None))
   = \<lparr>out_status = 401,
      out_body = Some (JObj [(''success'', JBool False),
                             (''error'', JStr ''Riot API error''),
                             (''status'', JNum (Num 401)),
                             (''details'', JStr ''error page'')])\<rparr>
   \<and> body_field ''error''
        (fst (summoner_handler (replies (status_reply 401) (status_reply 404) (status_reply 404))
               (Some ''RGAPI-key'') ''2024-01-01T00:00:00.000Z'' (identity_query None None)))
       \<noteq> JStr ''API authentication failed''"
  by (simp add: identity_query_run account_stage_def replies_def status_reply_def ok_def
      catch_simps riot_api_error_def send_json_def nat_num_def body_field_def)

section \<open>Identity flow: malformed percent-escapes\<close>

lemma hex_val_percent: "hex_val CHR ''%'' = None"
  by (simp add: hex_val_def)

lemma malformed_escape_after_octet:
  assumes "parse_hex_octet s = Some (b, rest)" and "malformed_escape s"
  shows "malformed_escape rest"
proof -
  from assms(1) obtain x y where s: "s = x # y # rest" and "hex_val x \<noteq> None" "hex_val y \<noteq> None"
    by (cases s rule: parse_hex_octet.cases) (auto split: option.splits)
  then have "x \<noteq> CHR ''%''" "y \<noteq> CHR ''%''" using hex_val_percent by auto
  with assms(2) s show ?thesis by simp
qed

lemma malformed_escape_after_continuation:
  "continuation n s = Some (bs, rest) \<Longrightarrow> malformed_escape s \<Longrightarrow> malformed_escape rest"
proof (induction n s arbitrary: bs rest rule: continuation.induct)
  case (1 s)
  then show ?case by simp
next
  case (2 n)
  then show ?case by simp
next
  case (3 n c s)
  from "3.prems"(1) obtain b r bs' where c: "c = CHR ''%''"
    and p: "parse_hex_octet s = Some (b, r)"
    and k: "continuation n r = Some (bs', rest)"
    by (auto split: if_splits option.splits)
  from "3.prems"(2) c p have "malformed_escape s" by simp
  from malformed_escape_after_octet [OF p this] have "malformed_escape r" .
  with c p k "3.IH" show ?case by auto
qed

lemma decode_malformed: "malformed_escape s \<Longrightarrow> decodeURIComponent s = None"
proof (induction s rule: decodeURIComponent.induct)
  case 1
  then show ?case by simp
next
  case (2 c s)
  show ?case
  proof (cases "c = CHR ''%''")
    case False
    with "2.prems" have "malformed_escape s" by simp
    with "2.IH"(1) False show ?thesis by (simp add: decodeURIComponent.simps)
  next
    case True
    show ?thesis
    proof (cases "parse_hex_octet s")
      case None
      with True show ?thesis by (simp add: decodeURIComponent.simps)
    next
      case (Some p)
      obtain b rest where p: "p = (b, rest)" by (cases p)
      from "2.prems" True Some have "malformed_escape s" by simp
      from malformed_escape_after_octet [OF Some [unfolded p] this] have mr: "malformed_escape rest" .
      show ?thesis
      proof (cases "continuation (leading_ones b - 1) rest")
        case None
        with True Some p mr "2.IH"(2) show ?thesis
          by (simp add: decodeURIComponent.simps)
      next
        case (Some q)
        obtain bs rest' where q: "q = (bs, rest')" by (cases q)
        from malformed_escape_after_continuation [OF Some [unfolded q] mr]
        have "malformed_escape rest'" .
        with True \<open>parse_hex_octet s = Some p\<close> p Some q mr "2.IH"(2,3) show ?thesis
          by (simp add: decodeURIComponent.simps)
      qed
    qed
  qed
qed

text \<open>
  C10. When the game name or the tag line segment holds a percent sign that two
  hexadecimal digits do not follow, decoding throws, and the identity flow sends status
  500 with \<open>success: false\<close> and the error text \<open>Internal server error\<close>, whatever the
  credential and the region are, without any upstream call.
\<close>

theorem malformed_escape_internal_error:
  assumes "q_method req = ''GET''" and "q_params req = Some (g # t # others)"
    and "malformed_escape g \<or> malformed_escape t"
  shows "summoner_handler up env_key now req
         = (\<lparr>out_status = 500,
             out_body = Some (JObj [(''success'', JBool False),
                                    (''error'', JStr ''Internal server error''),
                                    (''message'', JStr ''URI malformed'')])\<rparr>,
            [])"
proof -
  from assms(3) have "decodeURIComponent g = None \<or> decodeURIComponent t = None"
    by (auto dest: decode_malformed)
  with assms(1,2) show ?thesis
    by (auto simp: summoner_handler_def summoner_try_def catch_simps internal_error_def
          send_json_def uri_malformed_def split: option.splits)
qed

theorem malformed_escape_internal_error_witness:
  "malformed_escape ''100%''
   \<and> summoner_handler (replies (json_reply sample_account) (json_reply sample_summoner) (json_reply []))
         (Some ''RGAPI-key'') ''2024-01-01T00:00:00.000Z''
         \<lparr>q_method = ''GET'', q_params = Some [''100%'', ''KR1''], q_region = None, q_server = None\<rparr>
       = (\<lparr>out_status = 500,
           out_body = Some (JObj [(''success'', JBool False),
                                  (''error'', JStr ''Internal server error''),
                                  (''message'', JStr ''URI malformed'')])\<rparr>,
          [])"
  using malformed_escape_internal_error [of
      "\<lparr>q_method = ''GET'', q_params = Some [''100%'', ''KR1''], q_region = None, q_server = None\<rparr>"
      "''100%''" "''KR1''" "[]"
      "replies (json_reply sample_account) (json_reply sample_summoner) (json_reply [])"
      "Some ''RGAPI-key''" "''2024-01-01T00:00:00.000Z''"]
  by simp

section \<open>Identity flow: the summoner lookup is optional\<close>

lemma summoner_stage_absent:
  assumes "summoner_absent up apiKey (str_or q_srv ''kr'') (template_str (a_puuid accountData))"
  shows "fst (catch (summoner_stage up apiKey now region q_srv calls accountData))
         = send_json 200 (summoner_response now region (str_or q_srv ''kr'') accountData None)"
  using assms
  by (auto simp: summoner_absent_def summoner_stage_def Let_def catch_simps
        split: lookup.splits fetch_result.splits)

lemma summoner_stage_throws:
  assumes "summoner_throws up apiKey (str_or q_srv ''kr'') (template_str (a_puuid accountData))"
  shows "\<exists>e. fst (catch (summoner_stage up apiKey now region q_srv calls accountData))
             = internal_error e"
  using assms
  by (auto simp: summoner_throws_def summoner_stage_def Let_def catch_simps
        split: lookup.splits fetch_result.splits sum.splits)

text \<open>
  C4, as amended. After a successful account lookup, when the summoner lookup ends
  quietly without a record (the server key names no table entry and no inherited
  member, or the upstream answers with a status outside 2xx, 404 or any other), the
  identity flow sends status 200 with \<open>success: true\<close>, the three identity fields
  copied from the account record, no summoner field, and the metadata. When the lookup
  ends with an exception (the fetch rejects, or a 2xx body does not parse), the flow
  sends status 500 with \<open>success: false\<close> and the error text \<open>Internal server error\<close>.
\<close>

theorem identity_flow_soft_fail:
  assumes "q_method req = ''GET''" and "q_params req = Some (g # t # others)"
    and "decodeURIComponent g = Some gameName" and "decodeURIComponent t = Some tagLine"
    and "\<not> falsy_str env_key"
    and "js_lookup regionEndpoints (str_or (q_region req) ''asia'') = Own endpoint"
    and "fetch_account up (riot_request (account_url endpoint gameName tagLine) (str_or env_key []))
         = Resolved r"
    and "ok r" and "body_json r = Inr accountData"
  shows "(summoner_absent up (str_or env_key []) (str_or (q_server req) ''kr'')
            (template_str (a_puuid accountData)) \<longrightarrow>
          fst (summoner_handler up env_key now req)
          = \<lparr>out_status = 200,
             out_body = Some (JObj
               [(''success'', JBool True),
                (''data'', JObj [(''puuid'', opt_str (a_puuid accountData)),
                                 (''gameName'', a_gameName accountData),
                                 (''tagLine'', a_tagLine accountData)]),
                (''metadata'', JObj [(''region'', JStr (str_or (q_region req) ''asia'')),
                                     (''server'', JStr (str_or (q_server req) ''kr'')),
                                     (''timestamp'', JStr now)])])\<rparr>)
         \<and> (summoner_throws up (str_or env_key []) (str_or (q_server req) ''kr'')
               (template_str (a_puuid accountData)) \<longrightarrow>
             out_status (fst (summoner_handler up env_key now req)) = 500
             \<and> body_field ''success'' (fst (summoner_handler up env_key now req)) = JBool False
             \<and> body_field ''error'' (fst (summoner_handler up env_key now req))
                 = JStr ''Internal server error'')"
proof -
  have run: "summoner_handler up env_key now req
             = catch (summoner_stage up (str_or env_key []) now (str_or (q_region req) ''asia'')
                        (q_server req)
                        [AccountCall (riot_request (account_url endpoint gameName tagLine)
                                        (str_or env_key []))]
                        accountData)"
    unfolding summoner_handler_reaches_account [OF assms(1-6)]
      account_stage_ok [OF assms(7-9)] ..
  show ?thesis
  proof (intro conjI impI)
    assume "summoner_absent up (str_or env_key []) (str_or (q_server req) ''kr'')
              (template_str (a_puuid accountData))"
    from summoner_stage_absent [OF this] show "fst (summoner_handler up env_key now req)
          = \<lparr>out_status = 200,
             out_body = Some (JObj
               [(''success'', JBool True),
                (''data'', JObj [(''puuid'', opt_str (a_puuid accountData)),
                                 (''gameName'', a_gameName accountData),
                                 (''tagLine'', a_tagLine accountData)]),
                (''metadata'', JObj [(''region'', JStr (str_or (q_region req) ''asia'')),
                                     (''server'', JStr (str_or (q_server req) ''kr'')),
                                     (''timestamp'', JStr now)])])\<rparr>"
      unfolding run by (simp add: send_json_def summoner_response_def)
  next
    assume th: "summoner_throws up (str_or env_key []) (str_or (q_server req) ''kr'')
              (template_str (a_puuid accountData))"
    from summoner_stage_throws [OF th] obtain e
      where e: "fst (summoner_handler up env_key now req) = internal_error e"
      unfolding run by blast
    show "out_status (fst (summoner_handler up env_key now req)) = 500"
      unfolding e by (simp add: internal_error_envelope)
    show "body_field ''success'' (fst (summoner_handler up env_key now req)) = JBool False"
      unfolding e by (simp add: internal_error_envelope body_field_def)
    show "body_field ''error'' (fst (summoner_handler up env_key now req))
                 = JStr ''Internal server error''"
      unfolding e by (simp add: internal_error_envelope body_field_def)
  qed
qed

theorem identity_flow_soft_fail_witness:
  "summoner_absent (replies (json_reply sample_account) (status_reply 404) (json_reply []))
     ''RGAPI-key'' ''kr'' ''puuid-1''
   \<and> fst (summoner_handler (replies (json_reply sample_account) (status_reply 404) (json_reply []))
            (Some ''RGAPI-key'') ''2024-01-01T00:00:00.000Z'' (identity_query None None))
       = \<lparr>out_status = 200,
          out_body = Some (JObj
            [(''success'', JBool True),
             (''data'', JObj [(''puuid'', JStr ''puuid-1''),
                              (''gameName'', JStr ''Hide on bush''),
                              (''tagLine'', JStr ''KR1'')]),
             (''metadata'', JObj [(''region'', JStr ''asia''),
                                  (''server'', JStr ''kr''),
                                  (''timestamp'', JStr ''2024-01-01T00:00:00.000Z'')])])\<rparr>"
proof -
  have ab: "summoner_absent (replies (json_reply sample_account) (status_reply 404) (json_reply []))
     ''RGAPI-key'' ''kr'' ''puuid-1''"
    by (simp add: summoner_absent_def serverEndpoints_kr replies_def status_reply_def ok_def)
  from ab show ?thesis
    using identity_flow_soft_fail [of "identity_query None None" "''Hide%20on%20bush''" "''KR1''" "[]"
      "''Hide on bush''" "''KR1''" "Some ''RGAPI-key''" "''asia.api.riotgames.com''"
      "replies (json_reply sample_account) (status_reply 404) (json_reply [])"
      "\<lparr>status = 200, body_text = [], body_json = Inr sample_account\<rparr>" sample_account
      "''2024-01-01T00:00:00.000Z''"]
    by (simp add: identity_query_def decode_hide_on_bush decode_kr1 falsy_str_def str_or_def
      regionEndpoints_asia replies_def json_reply_def ok_def sample_account_def template_str_def
      opt_str_def)
qed

text \<open>
  C4 as stated fails when the summoner fetch rejects: the exception reaches the one
  \<open>catch\<close> of the handler, and the flow answers 500 with \<open>success: false\<close> although the
  account lookup succeeded.
\<close>

theorem summoner_fetch_rejected:
  "out_status (fst (summoner_handler
       (replies (json_reply sample_account) (Rejected ''fetch failed'') (json_reply []))
       (Some ''RGAPI-key'') ''2024-01-01T00:00:00.000Z'' (identity_query None None))) = 500
   \<and> body_field ''success'' (fst (summoner_handler
       (replies (json_reply sample_account) (Rejected ''fetch failed'') (json_reply []))
       (Some ''RGAPI-key'') ''2024-01-01T00:00:00.000Z'' (identity_query None None))) = JBool False"
  by (simp add: identity_query_run account_stage_def summoner_stage_def replies_def json_reply_def
      ok_def serverEndpoints_kr str_or_def catch_simps internal_error_envelope body_field_def)

section \<open>Checks made before any upstream call\<close>

text \<open>
  A key is reported as invalid exactly when the table has no entry for it and it names
  no inherited member.
\<close>

lemma js_lookup_Missing_iff:
  "js_lookup table k = Missing \<longleftrightarrow> map_of table k = None \<and> plain_key k"
  by (simp add: js_lookup_def plain_key_def split: option.splits)

lemma summoner_handler_validation:
  assumes "q_method req = ''GET''"
    and "q_params req = None \<or> (\<exists>ps. q_params req = Some ps \<and> length ps < 2)
         \<or> falsy_str env_key
         \<or> (\<forall>endpoint. js_lookup regionEndpoints (str_or (q_region req) ''asia'') \<noteq> Own endpoint)"
  shows "snd (summoner_handler up env_key now req) = []
         \<and> out_status (fst (summoner_handler up env_key now req)) \<noteq> 200
         \<and> body_field ''success'' (fst (summoner_handler up env_key now req)) = JBool False"
  using assms
  by (auto simp: summoner_handler_def summoner_try_def catch_simps internal_error_envelope
        body_field_def invalid_url_format_def server_configuration_error_def invalid_region_def
        send_json_def Let_def
        split: option.splits list.splits lookup.splits)

lemma summoner_handler_invalid_region:
  assumes "q_method req = ''GET''" and "q_params req = Some (g # t # others)"
    and "decodeURIComponent g = Some gameName" and "decodeURIComponent t = Some tagLine"
    and "\<not> falsy_str env_key"
    and "js_lookup regionEndpoints (str_or (q_region req) ''asia'') = Missing"
  shows "summoner_handler up env_key now req
         = (\<lparr>out_status = 400,
             out_body = Some (JObj
               [(''success'', JBool False),
                (''error'', JStr ''Invalid region''),
                (''validRegions'',
                   JArr [JStr ''americas'', JStr ''asia'', JStr ''europe'', JStr ''sea''])])\<rparr>,
            [])"
  using assms
  by (simp add: summoner_handler_def summoner_try_def catch_simps invalid_region_def send_json_def
      object_keys_def regionEndpoints_def)

lemma rank_handler_validation:
  assumes "r_method req = ''GET''"
    and "falsy_str (r_puuid req) \<or> falsy_str env_key
         \<or> (\<forall>endpoint. js_lookup serverEndpoints (str_or (r_server req) ''kr'') \<noteq> Own endpoint)"
  shows "snd (rank_handler up env_key now req) = []
         \<and> out_status (fst (rank_handler up env_key now req)) \<noteq> 200
         \<and> body_field ''success'' (fst (rank_handler up env_key now req)) = JBool False"
  using assms
  by (auto simp: rank_handler_def rank_try_def catch_simps internal_error_envelope
        body_field_def puuid_required_def api_key_not_configured_def invalid_server_def
        send_json_def Let_def
        split: lookup.splits)

lemma rank_handler_invalid_server:
  assumes "r_method req = ''GET''" and "\<not> falsy_str (r_puuid req)" and "\<not> falsy_str env_key"
    and "js_lookup serverEndpoints (str_or (r_server req) ''kr'') = Missing"
  shows "rank_handler up env_key now req
         = (\<lparr>out_status = 400,
             out_body = Some (JObj
               [(''success'', JBool False),
                (''error'', JStr ''Invalid server''),
                (''validServers'',
                   JArr [JStr ''kr'', JStr ''jp1'', JStr ''na1'', JStr ''br1'', JStr ''lan'',
                         JStr ''las'', JStr ''oc1'', JStr ''euw1'', JStr ''eun1'', JStr ''tr1'',
                         JStr ''ru''])])\<rparr>,
            [])"
  using assms
  by (simp add: rank_handler_def rank_try_def catch_simps invalid_server_def send_json_def
      object_keys_def serverEndpoints_def)

text \<open>
  C6. A missing credential, a missing input and a key outside the table are all answered
  with \<open>success: false\<close> before any upstream call, and the list sent with
  \<open>Invalid region\<close> or \<open>Invalid server\<close> is the table's keys (the lemmas above). The claim
  has every key outside the table reported so. A key that names an inherited member,
  such as \<open>constructor\<close>, passes the check instead: the host becomes the text of a
  function, \<open>fetch\<close> fails to parse the URL, and the caller gets the 500 envelope of the
  \<open>catch\<close> block with no list of valid keys.
\<close>

theorem inherited_region_key:
  "summoner_handler (replies (json_reply sample_account) (json_reply sample_summoner) (json_reply []))
     (Some ''RGAPI-key'') ''2024-01-01T00:00:00.000Z'' (identity_query (Some ''constructor'') None)
   = (\<lparr>out_status = 500,
       out_body = Some (JObj
         [(''success'', JBool False),
          (''error'', JStr ''Internal server error''),
          (''message'', JStr (''Failed to parse URL from ''
             @ account_url ''function Object() { [native code] }'' ''Hide on bush'' ''KR1''))])\<rparr>,
      [])
   \<and> body_field ''validRegions''
        (fst (summoner_handler
           (replies (json_reply sample_account) (json_reply sample_summoner) (json_reply []))
           (Some ''RGAPI-key'') ''2024-01-01T00:00:00.000Z''
           (identity_query (Some ''constructor'') None))) = JUndefined"
  by (simp add: summoner_handler_def summoner_try_def identity_query_def decode_hide_on_bush
      decode_kr1 falsy_str_def str_or_def js_lookup_def regionEndpoints_def
      object_prototype_keys_def render_inherited_def catch_simps internal_error_def invalid_url_def
      send_json_def body_field_def)

section \<open>The response envelope\<close>

lemma envelope_ok_internal_error: "envelope_ok (internal_error e)"
  by (simp add: envelope_ok_def internal_error_def send_json_def)

lemma envelope_ok_failure:
  "n \<noteq> 200 \<Longrightarrow> e \<noteq> [] \<Longrightarrow>
     envelope_ok (send_json n (JObj ((''success'', JBool False) # (''error'', JStr e) # kvs)))"
  by (simp add: envelope_ok_def send_json_def)

lemma envelope_ok_success:
  "envelope_ok (send_json 200 (JObj ((''success'', JBool True) # kvs)))"
  by (simp add: envelope_ok_def send_json_def)

lemma not_ok_not_200: "\<not> ok r \<Longrightarrow> status r \<noteq> 200"
  by (auto simp: ok_def)

lemma envelope_ok_rank_entries_stage:
  "envelope_ok (fst (catch (rank_entries_stage up apiKey now server endpoint puuid calls sd)))"
  by (auto simp: rank_entries_stage_def Let_def catch_simps envelope_ok_internal_error
        envelope_ok_failure envelope_ok_success rank_response_def not_ok_not_200
        split: fetch_result.splits sum.splits)

lemma envelope_ok_rank_summoner_stage:
  "envelope_ok (fst (catch (rank_summoner_stage up apiKey now server endpoint puuid)))"
  by (auto simp: rank_summoner_stage_def Let_def catch_simps envelope_ok_internal_error
        envelope_ok_failure envelope_ok_rank_entries_stage not_ok_not_200
        split: fetch_result.splits sum.splits)

lemma envelope_ok_rank_handler:
  "r_method req = ''GET'' \<Longrightarrow> envelope_ok (fst (rank_handler up env_key now req))"
  by (auto simp: rank_handler_def rank_try_def Let_def catch_simps envelope_ok_internal_error
        envelope_ok_failure envelope_ok_rank_summoner_stage puuid_required_def
        api_key_not_configured_def invalid_server_def
        split: lookup.splits)

lemma envelope_ok_summoner_stage:
  "envelope_ok (fst (catch (summoner_stage up apiKey now region q_srv calls ad)))"
  by (auto simp: summoner_stage_def Let_def catch_simps envelope_ok_internal_error
        envelope_ok_success summoner_response_def
        split: lookup.splits fetch_result.splits sum.splits)

lemma envelope_ok_account_stage:
  "envelope_ok (fst (catch (account_stage up apiKey now region q_srv endpoint gameName tagLine)))"
  by (auto simp: account_stage_def Let_def catch_simps envelope_ok_internal_error
        envelope_ok_failure envelope_ok_summoner_stage not_ok_not_200 summoner_not_found_def
        api_authentication_failed_def riot_api_error_def
        split: fetch_result.splits sum.splits)

lemma envelope_ok_summoner_handler:
  "q_method req = ''GET'' \<Longrightarrow> envelope_ok (fst (summoner_handler up env_key now req))"
  by (auto simp: summoner_handler_def summoner_try_def Let_def catch_simps
        envelope_ok_internal_error envelope_ok_failure envelope_ok_account_stage
        invalid_url_format_def server_configuration_error_def invalid_region_def
        split: option.splits list.splits lookup.splits)

text \<open>
  C9. Every response to a GET, in either flow, has a body; its status is 200 exactly
  when the body says \<open>success: true\<close>, and under any other status the body says
  \<open>success: false\<close> and carries a non-empty error text. Whatever is thrown inside the
  handler ends in such a body as well.
\<close>

theorem get_envelope:
  "(q_method req = ''GET'' \<longrightarrow> envelope_ok (fst (summoner_handler up env_key now req)))
   \<and> (r_method rreq = ''GET'' \<longrightarrow> envelope_ok (fst (rank_handler up env_key now rreq)))"
  using envelope_ok_summoner_handler envelope_ok_rank_handler by blast

theorem get_envelope_witness:
  "q_method (identity_query None None) = ''GET'' \<and> r_method (rank_query_of None) = ''GET''
   \<and> envelope_ok (fst (summoner_handler
         (replies (json_reply sample_account) (json_reply sample_summoner) (status_reply 500))
         (Some ''RGAPI-key'') ''2024-01-01T00:00:00.000Z'' (identity_query None None)))
   \<and> envelope_ok (fst (rank_handler
         (replies (json_reply sample_account) (json_reply sample_summoner) (status_reply 500))
         (Some ''RGAPI-key'') ''2024-01-01T00:00:00.000Z'' (rank_query_of None)))
   \<and> out_status (fst (summoner_handler
         (replies (json_reply sample_account) (json_reply sample_summoner) (status_reply 500))
         (Some ''RGAPI-key'') ''2024-01-01T00:00:00.000Z'' (identity_query None None))) = 200
   \<and> out_status (fst (rank_handler
         (replies (json_reply sample_account) (json_reply sample_summoner) (status_reply 500))
         (Some ''RGAPI-key'') ''2024-01-01T00:00:00.000Z'' (rank_query_of None))) = 500"
proof -
  have a: "out_status (fst (summoner_handler
         (replies (json_reply sample_account) (json_reply sample_summoner) (status_reply 500))
         (Some ''RGAPI-key'') ''2024-01-01T00:00:00.000Z'' (identity_query None None))) = 200"
    by (simp add: identity_query_run account_stage_def summoner_stage_def replies_def
        json_reply_def ok_def serverEndpoints_kr str_or_def catch_simps send_json_def)
  have b: "out_status (fst (rank_handler
         (replies (json_reply sample_account) (json_reply sample_summoner) (status_reply 500))
         (Some ''RGAPI-key'') ''2024-01-01T00:00:00.000Z'' (rank_query_of None))) = 500"
    by (simp add: rank_handler_def rank_try_def rank_query_of_def falsy_str_def str_or_def
        serverEndpoints_kr rank_summoner_stage_def rank_entries_stage_def replies_def
        json_reply_def status_reply_def ok_def catch_simps send_json_def Let_def)
  from a b show ?thesis
    using get_envelope [of "identity_query None None"
        "replies (json_reply sample_account) (json_reply sample_summoner) (status_reply 500)"
        "Some ''RGAPI-key''" "''2024-01-01T00:00:00.000Z''" "rank_query_of None"]
    by (simp add: identity_query_def rank_query_of_def)
qed

section \<open>Determinism of the identity flow\<close>

lemma payload_summoner_response:
  "payload (send_json 200 (summoner_response now region server ad sd))
   = send_json 200 (JObj
       [(''success'', JBool True),
        (''data'', field ''data'' (summoner_response [] region server ad sd)),
        (''metadata'', JObj [(''region'', JStr region), (''server'', JStr server)])])"
  by (simp add: payload_def send_json_def summoner_response_def)

lemma observable_summoner_stage:
  "observable (catch (summoner_stage up apiKey now1 region q_srv calls ad))
   = observable (catch (summoner_stage up apiKey now2 region q_srv calls ad))"
  by (auto simp: observable_def summoner_stage_def Let_def catch_simps payload_summoner_response
        split: lookup.splits fetch_result.splits sum.splits)

lemma observable_account_stage:
  "observable (catch (account_stage up apiKey now1 region q_srv endpoint gameName tagLine))
   = observable (catch (account_stage up apiKey now2 region q_srv endpoint gameName tagLine))"
  using observable_summoner_stage
  by (auto simp: account_stage_def Let_def catch_simps observable_def
        split: fetch_result.splits sum.splits)

lemma timestamp_reported:
  "body_field ''metadata''
     (fst (summoner_handler (replies (json_reply sample_account) (status_reply 404) (json_reply []))
            (Some ''RGAPI-key'') now (identity_query None None)))
   = JObj [(''region'', JStr ''asia''), (''server'', JStr ''kr''), (''timestamp'', JStr now)]"
  by (simp add: identity_query_run account_stage_def summoner_stage_def replies_def json_reply_def
      status_reply_def ok_def serverEndpoints_kr str_or_def catch_simps send_json_def
      summoner_response_def body_field_def)

text \<open>
  C8. Two runs of the identity flow on the same request, with the same credential and
  against the same upstream answers, send the same status and the same body, the
  \<open>timestamp\<close> of the metadata apart, and issue the same upstream calls.
\<close>

theorem identity_flow_deterministic:
  "observable (summoner_handler up env_key now1 req)
   = observable (summoner_handler up env_key now2 req)"
  using observable_account_stage
  by (auto simp: summoner_handler_def summoner_try_def Let_def catch_simps observable_def
        split: option.splits list.splits lookup.splits)

end
